theory Spec2Isabelle
  imports Complex_Main
begin

section \<open>JavaScript values\<close>

text \<open>
  Everything the servers read from the network is the result of \<open>r.json()\<close>: a JSON value.
  Numbers carry the exact value of the parsed double (a rational; both zeros are \<open>0\<close>),
  strings are lists of code units below 256, an object is the list of its own properties
  (the first binding of a name is the property). \<open>undefined\<close> is not a JSON value: a
  property read returns \<open>json option\<close>, with \<open>None\<close> for \<open>undefined\<close>.
\<close>

datatype json =
    JNull
  | JBool bool
  | JNum rat
  | JStr string
  | JArr "json list"
  | JObj "(string \<times> json) list"

datatype js_error =
    TypeError
  | FetchError string
  | ParseError string
  | HttpError string nat

text \<open>\<open>!!v\<close>: \<open>null\<close>, \<open>false\<close>, \<open>0\<close> and \<open>""\<close> are falsy, arrays and objects are truthy.\<close>

fun truthy :: "json \<Rightarrow> bool" where
  "truthy JNull = False"
| "truthy (JBool b) = b"
| "truthy (JNum n) = (n \<noteq> 0)"
| "truthy (JStr s) = (s \<noteq> [])"
| "truthy (JArr vs) = True"
| "truthy (JObj kvs) = True"


text \<open>
  \<open>v.name\<close> for a value \<open>v\<close> that is not \<open>null\<close>: an object gives its own property, every
  other value gives \<open>undefined\<close> (none of the names read by the servers is a built-in
  property of strings, numbers, booleans or arrays). On \<open>null\<close> the read throws; the
  callers below test for \<open>JNull\<close> before they use \<open>get_prop\<close>, or use \<open>opt_prop\<close>.
\<close>

fun get_prop :: "json \<Rightarrow> string \<Rightarrow> json option" where
  "get_prop (JObj kvs) k = map_of kvs k"
| "get_prop _ k = None"


text \<open>\<open>a || b\<close> with a JSON value for \<open>b\<close>, and \<open>a ?? null\<close>.\<close>

definition or_else :: "json option \<Rightarrow> json \<Rightarrow> json" where
  "or_else a b = (case a of None \<Rightarrow> b | Some v \<Rightarrow> if truthy v then v else b)"


section \<open>Outbound HTTP\<close>

text \<open>
  A call of \<open>fetch\<close> is recorded as the request it sends; what comes back is an input of
  the model. \<open>Rejected e\<close> is a rejected promise (network error, abort, timeout) with
  \<open>String(e) = e\<close>; \<open>Response st b\<close> is a response with status \<open>st\<close> whose body
  \<open>r.json()\<close> either parses or rejects with an error of text \<open>e\<close>. A header value is
  \<open>None\<close> when the source passes \<open>undefined\<close>. A \<open>response\<close> is what a handler hands to
  \<open>res.status(...).json(...)\<close> (or to \<open>writeHead\<close> and \<open>end\<close>): the status and the value
  that is serialised as the body.
\<close>

record request =
  url :: string
  headers :: "(string \<times> string option) list"

datatype body = Unparsable string | Parsed json

datatype fetch_outcome = Rejected string | Response nat body

definition ok :: "nat \<Rightarrow> bool" where
  "ok st = (200 \<le> st \<and> st \<le> 299)"

record response =
  status :: nat
  payload :: json

section \<open>The geo cache of part 001\<close>

subsection \<open>The pattern \<open>/^(?:\d{1,3}\.){3}\d{1,3}$/\<close>\<close>

definition is_digit :: "char \<Rightarrow> bool" where
  "is_digit c = (c \<in> set ''0123456789'')"

text \<open>
  \<open>\d{1,3}\<close>: one to three digits, as many as there are (up to three). What follows the
  group in the pattern is a dot or the end of the input, neither of which a digit
  matches, so giving a digit back can never make the pattern match: the longest run is
  the only candidate. The result is the rest of the input.
\<close>

definition digits_1_3 :: "string \<Rightarrow> string option" where
  "digits_1_3 s =
     (let n = length (takeWhile is_digit (take 3 s))
      in if n = 0 then None else Some (drop n s))"

text \<open>\<open>\d{1,3}\.\<close>\<close>

definition octet_dot :: "string \<Rightarrow> string option" where
  "octet_dot s =
     (case digits_1_3 s of
        None \<Rightarrow> None
      | Some [] \<Rightarrow> None
      | Some (c # r) \<Rightarrow> if c = CHR ''.'' then Some r else None)"

text \<open>\<open>ipv4.test(s)\<close> for a string \<open>s\<close>; \<open>$\<close> is the end of the input (no \<open>m\<close> flag).\<close>

definition ipv4_test :: "string \<Rightarrow> bool" where
  "ipv4_test s =
     (case octet_dot s of
        None \<Rightarrow> False
      | Some r1 \<Rightarrow>
         (case octet_dot r1 of
            None \<Rightarrow> False
          | Some r2 \<Rightarrow>
             (case octet_dot r2 of
                None \<Rightarrow> False
              | Some r3 \<Rightarrow> digits_1_3 r3 = Some [])))"

text \<open>
  \<open>ipv4.test(v)\<close> for any value: \<open>test\<close> converts its argument to a string first. The
  text of a number has at most one dot, the texts of \<open>null\<close>, a boolean and an object have
  none, and the text of an array is the comma-separated texts of its elements (empty for
  \<open>null\<close>), so it has a comma unless the array has one element. \<open>ip_text\<close> is that text
  for the values that pass the test.
\<close>

fun ipv4_test_val :: "json \<Rightarrow> bool" where
  "ipv4_test_val (JStr s) = ipv4_test s"
| "ipv4_test_val (JArr [v]) = ipv4_test_val v"
| "ipv4_test_val _ = False"

fun ip_text :: "json \<Rightarrow> string" where
  "ip_text (JStr s) = s"
| "ip_text (JArr [v]) = ip_text v"
| "ip_text _ = []"

subsection \<open>Cache entries\<close>

text \<open>
  \<open>Number(v)\<close> for a truthy \<open>v\<close> that is not a number is kept as the term \<open>CNumberOf v\<close>:
  the source stores and returns it and never computes with it.
\<close>

datatype coord = CNull | CNum rat | CNumberOf json

record geo =
  city :: json
  country :: json
  latitude :: coord
  longitude :: coord

record geo_entry =
  e_city :: json
  e_country :: json
  e_latitude :: coord
  e_longitude :: coord
  ts :: int

type_synonym geo_cache = "string \<rightharpoonup> geo_entry"

text \<open>\<open>{ ...geo, ts: Date.now() }\<close>\<close>

definition entry_of :: "geo \<Rightarrow> int \<Rightarrow> geo_entry" where
  "entry_of g t =
     \<lparr>e_city = city g, e_country = country g, e_latitude = latitude g,
      e_longitude = longitude g, ts = t\<rparr>"

text \<open>\<open>{ city: cached.city, country: cached.country, latitude: ..., longitude: ... }\<close>\<close>

definition geo_of :: "geo_entry \<Rightarrow> geo" where
  "geo_of e =
     \<lparr>city = e_city e, country = e_country e, latitude = e_latitude e,
      longitude = e_longitude e\<rparr>"

text \<open>
  \<open>typeof x === "number" ? x : (x ? Number(x) : null)\<close>
\<close>

definition coord_of :: "json option \<Rightarrow> coord" where
  "coord_of x =
     (case x of
        Some (JNum n) \<Rightarrow> CNum n
      | Some v \<Rightarrow> if truthy v then CNumberOf v else CNull
      | None \<Rightarrow> CNull)"

text \<open>
  The object built from the provider's body \<open>j\<close>. Reading \<open>j.city\<close> throws when \<open>j\<close> is
  \<open>null\<close>.
\<close>

definition make_geo :: "json \<Rightarrow> js_error + geo" where
  "make_geo j =
     (if j = JNull then Inl TypeError
      else Inr
        \<lparr>city = or_else (get_prop j ''city'') (JStr ''''),
         country =
           or_else (get_prop j ''country_name'') (or_else (get_prop j ''country'') (JStr '''')),
         latitude = coord_of (get_prop j ''latitude''),
         longitude = coord_of (get_prop j ''longitude'')\<rparr>)"

subsection \<open>lookupGeo\<close>

text \<open>
  The inputs of one call: the clock at the freshness test, what the provider answers if
  it is asked, and the clock when the result is stored.
\<close>

record lookup_env =
  now_check :: int
  outcome :: fetch_outcome
  now_store :: int

definition week_ms :: int where
  "week_ms = 7 * 24 * 3600 * 1000"

definition geo_request :: "json \<Rightarrow> request" where
  "geo_request ip = \<lparr>url = ''https://ipapi.co/'' @ ip_text ip @ ''/json/'', headers = []\<rparr>"

text \<open>
  \<open>geoCache.get(ip)\<close>: the keys of the \<open>Map\<close> are compared by value for strings and by
  identity for objects. An array that reaches \<open>lookupGeo\<close> was made by \<open>r.json()\<close> for
  the current request, so it is no key of the map.
\<close>

definition cache_get :: "geo_cache \<Rightarrow> json \<Rightarrow> geo_entry option" where
  "cache_get c ip = (case ip of JStr s \<Rightarrow> c s | _ \<Rightarrow> None)"

text \<open>
  \<open>geoCache.set(ip, e)\<close>. An entry stored under an array can never be read again (no later
  key is that very array), so the model keeps string keys only.
\<close>

definition cache_set :: "json \<Rightarrow> geo_entry \<Rightarrow> geo_cache \<Rightarrow> geo_cache" where
  "cache_set ip e c = (case ip of JStr s \<Rightarrow> c(s \<mapsto> e) | _ \<Rightarrow> c)"

text \<open>
  One call of \<open>lookupGeo(ip)\<close>: the result (\<open>None\<close> is \<open>null\<close>), the entry it stores if it
  stores one, and the requests it sends. Every throw inside the body ends in the
  \<open>catch\<close>, which returns \<open>null\<close>.
\<close>

definition lookup_step ::
  "geo_cache \<Rightarrow> lookup_env \<Rightarrow> json \<Rightarrow> geo option \<times> geo_entry option \<times> request list" where
  "lookup_step c env ip =
     (if \<not> ipv4_test_val ip then (None, None, [])
      else
        (case (case cache_get c ip of
                 None \<Rightarrow> None
               | Some cached \<Rightarrow>
                   if now_check env - ts cached < week_ms then Some (geo_of cached) else None) of
           Some g \<Rightarrow> (Some g, None, [])
         | None \<Rightarrow>
            (case outcome env of
               Rejected e \<Rightarrow> (None, None, [geo_request ip])
             | Response st b \<Rightarrow>
                 if \<not> ok st then (None, None, [geo_request ip])
                 else
                   (case b of
                      Unparsable e \<Rightarrow> (None, None, [geo_request ip])
                    | Parsed j \<Rightarrow>
                       (case make_geo j of
                          Inl err \<Rightarrow> (None, None, [geo_request ip])
                        | Inr g \<Rightarrow>
                            (Some g, Some (entry_of g (now_store env)), [geo_request ip]))))))"

definition lookupGeo ::
  "geo_cache \<Rightarrow> lookup_env \<Rightarrow> json \<Rightarrow> geo option \<times> geo_cache \<times> request list" where
  "lookupGeo c env ip =
     (case lookup_step c env ip of
        (g, None, reqs) \<Rightarrow> (g, c, reqs)
      | (g, Some e, reqs) \<Rightarrow> (g, cache_set ip e c, reqs))"

section \<open>Configuration\<close>

text \<open>\<open>process.env\<close>, and \<open>process.env.NAME || dflt\<close>.\<close>

type_synonym env = "string \<rightharpoonup> string"

definition env_or :: "env \<Rightarrow> string \<Rightarrow> string \<Rightarrow> string" where
  "env_or ev name dflt = (case ev name of None \<Rightarrow> dflt | Some v \<Rightarrow> if v = [] then dflt else v)"

text \<open>
  \<open>s.trim()\<close>: the white space and line terminators of JavaScript among the code units
  below 256 are U+0009 to U+000D, U+0020 and U+00A0.
\<close>

definition is_space :: "char \<Rightarrow> bool" where
  "is_space c = (of_char c \<in> set [9, 10, 11, 12, 13, 32, 160 :: nat])"

definition trim :: "string \<Rightarrow> string" where
  "trim s = rev (dropWhile is_space (rev (dropWhile is_space s)))"

text \<open>\<open>s.replace(/\/+$/, "")\<close>: every trailing slash goes.\<close>

definition strip_slashes :: "string \<Rightarrow> string" where
  "strip_slashes s = rev (dropWhile (\<lambda>c. c = CHR ''/'') (rev s))"

text \<open>\<open>s.replace(/\/$/, "")\<close>: one trailing slash goes.\<close>

definition strip_slash :: "string \<Rightarrow> string" where
  "strip_slash s = (if s \<noteq> [] \<and> last s = CHR ''/'' then butlast s else s)"

text \<open>
  \<open>encodeURIComponent\<close>: letters, digits and \<open>- _ . ! ~ * ' ( )\<close> stay, every other code
  unit becomes the percent-escapes of its UTF-8 bytes (one byte below 128, two bytes
  from 128 to 255).
\<close>

definition unreserved :: "char \<Rightarrow> bool" where
  "unreserved c =
     (let n = (of_char c :: nat)
      in (65 \<le> n \<and> n \<le> 90) \<or> (97 \<le> n \<and> n \<le> 122) \<or> (48 \<le> n \<and> n \<le> 57)
         \<or> n \<in> set [45, 95, 46, 33, 126, 42, 39, 40, 41])"

definition hex_digit :: "nat \<Rightarrow> char" where
  "hex_digit n = ''0123456789ABCDEF'' ! (n mod 16)"

definition pct :: "nat \<Rightarrow> string" where
  "pct b = [CHR ''%'', hex_digit (b div 16), hex_digit b]"

definition encode_char :: "char \<Rightarrow> string" where
  "encode_char c =
     (let n = (of_char c :: nat)
      in if unreserved c then [c]
         else if n < 128 then pct n
         else pct (192 + n div 64) @ pct (128 + n mod 64))"

definition encodeURIComponent :: "string \<Rightarrow> string" where
  "encodeURIComponent s = concat (map encode_char s)"

section \<open>part 001: the aggregating server\<close>

subsection \<open>Start\<close>

record config =
  API_BASE :: string
  STATS_TOKEN :: string
  ADMIN_TOKEN :: string

definition load_config :: "env \<Rightarrow> config" where
  "load_config ev =
     \<lparr>API_BASE = strip_slashes (env_or ev ''API_BASE'' ''''),
      STATS_TOKEN = trim (env_or ev ''STATS_TOKEN'' ''''),
      ADMIN_TOKEN = trim (env_or ev ''ADMIN_TOKEN'' '''')\<rparr>"

text \<open>
  The check before \<open>express()\<close>: \<open>None\<close> is \<open>process.exit(1)\<close>, after which nothing is
  served.
\<close>

definition startup :: "env \<Rightarrow> config option" where
  "startup ev =
     (let cfg = load_config ev
      in if API_BASE cfg = [] \<or> STATS_TOKEN cfg = [] then None else Some cfg)"

subsection \<open>fetchStats and fetchDevices\<close>



definition devices_request :: "config \<Rightarrow> request" where
  "devices_request cfg =
     \<lparr>url = API_BASE cfg @ ''/api/devices'',
      headers = [(''x-admin-token'', Some (ADMIN_TOKEN cfg))]\<rparr>"

text \<open>\<open>Array.isArray(j.devices) ? j.devices : []\<close>; reading \<open>j.devices\<close> throws on \<open>null\<close>.\<close>

definition devices_of :: "json \<Rightarrow> js_error + json list" where
  "devices_of j =
     (if j = JNull then Inl TypeError
      else (case get_prop j ''devices'' of Some (JArr ds) \<Rightarrow> Inr ds | _ \<Rightarrow> Inr []))"

definition fetchDevices ::
  "config \<Rightarrow> fetch_outcome \<Rightarrow> (js_error + json list) \<times> request list" where
  "fetchDevices cfg out =
     (if ADMIN_TOKEN cfg = [] then (Inr [], [])
      else
        ((case out of
            Rejected e \<Rightarrow> Inl (FetchError e)
          | Response st b \<Rightarrow>
              if \<not> ok st then Inl (HttpError ''devices'' st)
              else (case b of Unparsable e \<Rightarrow> Inl (ParseError e) | Parsed j \<Rightarrow> devices_of j)),
         [devices_request cfg]))"

subsection \<open>GET /data\<close>






















section \<open>The proxies\<close>

definition not_configured :: response where
  "not_configured =
     \<lparr>status = 500, payload = JObj [(''error'', JStr ''dashboard_not_configured'')]\<rparr>"

definition fetch_failed :: "string \<Rightarrow> response" where
  "fetch_failed e =
     \<lparr>status = 500,
      payload = JObj [(''error'', JStr ''dashboard_fetch_failed''), (''detail'', JStr e)]\<rparr>"

subsection \<open>server-dashboard.js\<close>

definition dashboard_config :: "env \<Rightarrow> string \<times> string" where
  "dashboard_config ev = (env_or ev ''API_BASE'' '''', env_or ev ''STATS_TOKEN'' '''')"

definition dashboard_request :: "string \<Rightarrow> string \<Rightarrow> request" where
  "dashboard_request api_base stats_token =
     \<lparr>url = strip_slash api_base @ ''/stats?token='' @ encodeURIComponent stats_token,
      headers = [(''Accept'', Some ''application/json'')]\<rparr>"

text \<open>The branch \<open>url.pathname === "/stats"\<close> of the request listener.\<close>

definition dashboard_stats ::
  "string \<times> string \<Rightarrow> fetch_outcome \<Rightarrow> response \<times> request list" where
  "dashboard_stats cfg out =
     (case cfg of (api_base, stats_token) \<Rightarrow>
        if api_base = [] \<or> stats_token = [] then (not_configured, [])
        else
          ((case out of
              Rejected e \<Rightarrow> fetch_failed e
            | Response st (Unparsable e) \<Rightarrow> fetch_failed e
            | Response st (Parsed j) \<Rightarrow> \<lparr>status = st, payload = j\<rparr>),
           [dashboard_request api_base stats_token]))"

subsection \<open>part 000\<close>

text \<open>
  The configuration is read as in server-dashboard.js (the start only warns). In this
  file the pattern of the \<open>replace\<close> that builds the URL is printed \<open>/\\/$/\<close>, which is
  not a well-formed expression (the literal ends at the second slash). It is read as the
  \<open>/\/$/\<close> of server-dashboard.js; the handler differs from that one in nothing else
  that the model records.
\<close>

definition part000_stats ::
  "string \<times> string \<Rightarrow> fetch_outcome \<Rightarrow> response \<times> request list" where
  "part000_stats cfg out =
     (case cfg of (api_base, stats_token) \<Rightarrow>
        if api_base = [] \<or> stats_token = [] then (not_configured, [])
        else
          ((case out of
              Rejected e \<Rightarrow> fetch_failed e
            | Response st (Unparsable e) \<Rightarrow> fetch_failed e
            | Response st (Parsed j) \<Rightarrow> \<lparr>status = st, payload = j\<rparr>),
           [dashboard_request api_base stats_token]))"

subsection \<open>part 002\<close>

text \<open>
  \<open>API_BASE\<close> has a default and \<open>STATS_TOKEN\<close> is \<open>process.env.STATS_TOKEN\<close> as it is:
  \<open>undefined\<close> (\<open>None\<close>) when the variable is not set. The start warns when the token is
  falsy and goes on to \<open>app.listen\<close>.
\<close>

definition part002_config :: "env \<Rightarrow> string \<times> string option" where
  "part002_config ev =
     (env_or ev ''API_BASE'' ''https://seashell-app-naq42.ondigitalocean.app'',
      ev ''STATS_TOKEN'')"

text \<open>\<open>if (!STATS_TOKEN) console.warn(...)\<close>: whether the start prints the warning.\<close>

definition part002_warns :: "string \<times> string option \<Rightarrow> bool" where
  "part002_warns cfg =
     (case cfg of (api_base, stats_token) \<Rightarrow> stats_token = None \<or> stats_token = Some [])"

definition part002_request :: "string \<Rightarrow> string option \<Rightarrow> request" where
  "part002_request api_base stats_token =
     \<lparr>url = api_base @ ''/api/stats-public'', headers = [(''x-stats-token'', stats_token)]\<rparr>"

definition part002_stats ::
  "string \<times> string option \<Rightarrow> fetch_outcome \<Rightarrow> response \<times> request list" where
  "part002_stats cfg out =
     (case cfg of (api_base, stats_token) \<Rightarrow>
        ((case out of
            Rejected e \<Rightarrow> fetch_failed e
          | Response st (Unparsable e) \<Rightarrow> fetch_failed e
          | Response st (Parsed j) \<Rightarrow> \<lparr>status = st, payload = j\<rparr>),
         [part002_request api_base stats_token]))"


section \<open>Vocabulary of the properties\<close>

text \<open>
  The test \<open>cached && Date.now() - cached.ts < 7 * 24 * 3600 * 1000\<close> of \<open>lookupGeo\<close>, for
  the key \<open>s\<close> at the time \<open>t\<close>.
\<close>

definition fresh :: "geo_cache \<Rightarrow> int \<Rightarrow> string \<Rightarrow> bool" where
  "fresh c t s = (case c s of None \<Rightarrow> False | Some e \<Rightarrow> t - ts e < week_ms)"

text \<open>
  The answers of the provider on which \<open>lookupGeo\<close> leaves through \<open>return null\<close>: a
  rejected \<open>fetch\<close> (network error, timeout), a status outside 200..299, a body that
  \<open>r.json()\<close> cannot parse, and the body \<open>null\<close>, on which \<open>j.city\<close> throws. Every other
  body that parses counts as an answer and is stored.
\<close>

definition failed :: "fetch_outcome \<Rightarrow> bool" where
  "failed out =
     (case out of
        Rejected e \<Rightarrow> True
      | Response st b \<Rightarrow> \<not> ok st \<or> (case b of Unparsable e \<Rightarrow> True | Parsed j \<Rightarrow> j = JNull))"

subsection \<open>Concrete inputs\<close>

text \<open>An answer of the geo provider, the entry made from it, and the inputs of lookups.\<close>

definition london :: json where
  "london = JObj [(''ip'', JStr ''81.2.69.142''), (''city'', JStr ''London''),
     (''country_name'', JStr ''United Kingdom''),
     (''latitude'', JNum (103 / 2)), (''longitude'', JStr ''-0.12'')]"

definition london_geo :: geo where
  "london_geo = \<lparr>city = JStr ''London'', country = JStr ''United Kingdom'',
     latitude = CNum (103 / 2), longitude = CNumberOf (JStr ''-0.12'')\<rparr>"

definition first_env :: lookup_env where
  "first_env = \<lparr>now_check = 1000, outcome = Response 200 (Parsed london), now_store = 1250\<rparr>"

definition later_env :: lookup_env where
  "later_env = \<lparr>now_check = 604801249, outcome = Rejected ''offline'', now_store = 604801300\<rparr>"


text \<open>Configurations with and without the admin token, and inputs of \<open>GET /data\<close>.\<close>

definition cfg1 :: config where
  "cfg1 = \<lparr>API_BASE = ''https://main.example'', STATS_TOKEN = ''s3cret'', ADMIN_TOKEN = ''adm1n''\<rparr>"


definition fleet_body :: json where
  "fleet_body = JObj [(''devices'', JArr
     [JObj [(''id'', JStr ''dev-1''), (''ip'', JStr ''81.2.69.142''), (''os'', JStr ''linux''),
            (''username'', JStr ''ana''), (''hostname'', JStr ''lab-1''),
            (''lastSeen'', JNum 1700000000000), (''online'', JBool True)],
      JObj [(''id'', JStr ''dev-2''), (''ip'', JStr ''fe80::1''), (''os'', JStr ''macos'')]])]"




definition rate_limited :: lookup_env where
  "rate_limited = \<lparr>now_check = 2000,
     outcome = Response 429 (Parsed (JObj [(''error'', JBool True), (''reason'', JStr ''RateLimited'')])),
     now_store = 2100\<rparr>"

definition bad_body :: lookup_env where
  "bad_body = \<lparr>now_check = 3000, outcome = Response 200 (Unparsable ''SyntaxError''),
     now_store = 3100\<rparr>"

definition timed_out :: lookup_env where
  "timed_out = \<lparr>now_check = 604801250, outcome = Rejected ''AbortError'', now_store = 604807250\<rparr>"

definition cfg0 :: config where
  "cfg0 = \<lparr>API_BASE = ''https://main.example'', STATS_TOKEN = ''s3cret'', ADMIN_TOKEN = ''''\<rparr>"










section \<open>Properties\<close>

subsection \<open>The geo cache\<close>

lemma geo_of_entry_of: "geo_of (entry_of g t) = g"
  by (simp add: geo_of_def entry_of_def)

lemma lookup_step_hit:
  "ipv4_test s \<Longrightarrow> c s = Some e \<Longrightarrow> t - ts e < week_ms \<Longrightarrow> now_check env = t \<Longrightarrow>
   lookup_step c env (JStr s) = (Some (geo_of e), None, [])"
  by (simp add: lookup_step_def cache_get_def)

lemma lookup_step_failed:
  "ipv4_test s \<Longrightarrow> \<not> fresh c (now_check env) s \<Longrightarrow> failed (outcome env) \<Longrightarrow>
   lookup_step c env (JStr s) = (None, None, [geo_request (JStr s)])"
  by (auto simp: lookup_step_def cache_get_def fresh_def failed_def make_geo_def
      split: option.splits fetch_outcome.splits body.splits)

lemma lookup_step_calls_once:
  "ipv4_test s \<Longrightarrow> \<not> fresh c (now_check env) s \<Longrightarrow>
   snd (snd (lookup_step c env (JStr s))) = [geo_request (JStr s)]"
  by (auto simp: lookup_step_def cache_get_def fresh_def
      split: option.splits fetch_outcome.splits body.splits sum.splits)

lemma lookupGeo_reqs: "snd (snd (lookupGeo c env ip)) = snd (snd (lookup_step c env ip))"
  by (auto simp: lookupGeo_def split: prod.splits option.splits)

lemma lookupGeo_hit:
  "ipv4_test s \<Longrightarrow> c s = Some e \<Longrightarrow> now_check env - ts e < week_ms \<Longrightarrow>
   lookupGeo c env (JStr s) = (Some (geo_of e), c, [])"
  by (simp add: lookupGeo_def lookup_step_hit)

lemma lookupGeo_failed:
  "ipv4_test s \<Longrightarrow> \<not> fresh c (now_check env) s \<Longrightarrow> failed (outcome env) \<Longrightarrow>
   lookupGeo c env (JStr s) = (None, c, [geo_request (JStr s)])"
  by (simp add: lookupGeo_def lookup_step_failed)

lemma lookupGeo_stores:
  "ipv4_test s \<Longrightarrow> \<not> fresh c (now_check env) s \<Longrightarrow>
   lookupGeo c env (JStr s) = (Some g, c', reqs) \<Longrightarrow>
   c' = c(s \<mapsto> entry_of g (now_store env))"
  by (auto simp: lookupGeo_def lookup_step_def cache_get_def cache_set_def fresh_def
      split: option.splits fetch_outcome.splits body.splits sum.splits if_splits)

lemma ipv4_8: "ipv4_test ''81.2.69.142''"
  by (simp add: ipv4_test_def octet_dot_def digits_1_3_def is_digit_def)

lemma first_run: "lookupGeo Map.empty first_env (JStr ''81.2.69.142'') =
   (Some london_geo, [''81.2.69.142'' \<mapsto> entry_of london_geo 1250], [geo_request (JStr ''81.2.69.142'')])"
  by (simp add: lookupGeo_def lookup_step_def ipv4_8 cache_get_def cache_set_def first_env_def
       ok_def make_geo_def london_def london_geo_def or_else_def coord_of_def)

text \<open>
  Claim C9. For every string that the pattern does not match (an IPv6 address, a host
  name, the empty string), \<open>lookupGeo\<close> returns \<open>null\<close> at once: it sends no request and
  the cache is the one it was given.
\<close>

theorem lookupGeo_non_ipv4:
  "\<not> ipv4_test s \<Longrightarrow> lookupGeo c env (JStr s) = (None, c, [])"
  by (simp add: lookupGeo_def lookup_step_def)

text \<open>C9 at an IPv6 address, a host name and the empty string.\<close>

theorem lookupGeo_non_ipv4_witness:
  "lookupGeo Map.empty first_env (JStr ''2001:db8::1'') = (None, Map.empty, []) \<and>
   lookupGeo Map.empty first_env (JStr ''devicehub.example'') = (None, Map.empty, []) \<and>
   lookupGeo Map.empty first_env (JStr '''') = (None, Map.empty, [])"
proof -
  have "\<not> ipv4_test ''2001:db8::1''" and "\<not> ipv4_test ''devicehub.example''"
    and "\<not> ipv4_test ''''"
    by (simp_all add: ipv4_test_def octet_dot_def digits_1_3_def is_digit_def)
  then show ?thesis
    using lookupGeo_non_ipv4 [of "''2001:db8::1''" Map.empty first_env]
      lookupGeo_non_ipv4 [of "''devicehub.example''" Map.empty first_env]
      lookupGeo_non_ipv4 [of "''''" Map.empty first_env]
    by simp
qed

text \<open>
  Claim C4. For an IPv4-shaped string \<open>s\<close> that is no key of the cache, \<open>lookupGeo\<close> sends
  exactly one request, the one to the provider for \<open>s\<close>. When that call returns a result
  \<open>g\<close>, the cache holds \<open>g\<close> under \<open>s\<close> with the time of the store, and every later call
  for \<open>s\<close> that finds this entry less than seven days after the store returns \<open>g\<close>
  itself, sends no request and leaves the cache as it is.
\<close>

theorem lookupGeo_memo:
  assumes ip: "ipv4_test s" and miss: "c s = None"
    and run: "lookupGeo c env (JStr s) = (r, c', reqs)"
  shows "reqs = [geo_request (JStr s)] \<and>
   (\<forall>g. r = Some g \<longrightarrow>
      c' s = Some (entry_of g (now_store env)) \<and>
      (\<forall>c2 env2. c2 s = c' s \<and> now_check env2 - now_store env < week_ms \<longrightarrow>
         lookupGeo c2 env2 (JStr s) = (Some g, c2, [])))"
proof -
  have nf: "\<not> fresh c (now_check env) s"
    using miss by (simp add: fresh_def)
  have "snd (snd (lookupGeo c env (JStr s))) = [geo_request (JStr s)]"
    using ip nf by (simp add: lookupGeo_reqs lookup_step_calls_once)
  then have once: "reqs = [geo_request (JStr s)]"
    using run by simp
  have later: "c' s = Some (entry_of g (now_store env)) \<and>
      (\<forall>c2 env2. c2 s = c' s \<and> now_check env2 - now_store env < week_ms \<longrightarrow>
         lookupGeo c2 env2 (JStr s) = (Some g, c2, []))" if "r = Some g" for g
  proof -
    have c': "c' = c(s \<mapsto> entry_of g (now_store env))"
      using lookupGeo_stores [OF ip nf] run that by simp
    then have stored: "c' s = Some (entry_of g (now_store env))"
      by simp
    have "lookupGeo c2 env2 (JStr s) = (Some g, c2, [])"
      if "c2 s = c' s" and "now_check env2 - now_store env < week_ms" for c2 env2
    proof -
      have "c2 s = Some (entry_of g (now_store env))"
        using that(1) stored by simp
      moreover have "now_check env2 - ts (entry_of g (now_store env)) < week_ms"
        using that(2) by (simp add: entry_of_def)
      ultimately show ?thesis
        using lookupGeo_hit [OF ip] by (simp add: geo_of_entry_of)
    qed
    with stored show ?thesis by blast
  qed
  from once later show ?thesis by blast
qed

text \<open>
  C4 at \<open>81.2.69.142\<close>: a first lookup on the empty cache, and a second one 604799999 ms
  after the store, with the provider unreachable.
\<close>

theorem lookupGeo_memo_witness:
  "lookupGeo Map.empty first_env (JStr ''81.2.69.142'') =
     (Some london_geo, [''81.2.69.142'' \<mapsto> entry_of london_geo 1250],
      [geo_request (JStr ''81.2.69.142'')]) \<and>
   lookupGeo [''81.2.69.142'' \<mapsto> entry_of london_geo 1250] later_env (JStr ''81.2.69.142'') =
     (Some london_geo, [''81.2.69.142'' \<mapsto> entry_of london_geo 1250], [])"
proof -
  have miss: "(Map.empty :: geo_cache) ''81.2.69.142'' = None" by simp
  have young: "now_check later_env - now_store first_env < week_ms"
    by (simp add: later_env_def first_env_def week_ms_def)
  from lookupGeo_memo [OF ipv4_8 miss first_run] young show ?thesis
    using first_run by simp
qed

text \<open>
  Claim C5. For an IPv4-shaped string \<open>s\<close> without a fresh entry, when the lookup fails
  (non-success status, rejected or timed-out request, unparsable body), \<open>lookupGeo\<close>
  returns \<open>null\<close> after its one request and the cache is unchanged: no entry for \<open>s\<close> is
  added or updated. A later call for \<open>s\<close> on the resulting cache, made while \<open>s\<close> still
  has no fresh entry, sends the request again.
\<close>

theorem lookupGeo_failure_not_cached:
  "ipv4_test s \<Longrightarrow> \<not> fresh c (now_check env) s \<Longrightarrow> failed (outcome env) \<Longrightarrow>
   lookupGeo c env (JStr s) = (None, c, [geo_request (JStr s)]) \<and>
   (\<forall>env2. \<not> fresh c (now_check env2) s \<longrightarrow>
      snd (snd (lookupGeo (fst (snd (lookupGeo c env (JStr s)))) env2 (JStr s))) =
        [geo_request (JStr s)])"
  by (simp add: lookupGeo_failed lookupGeo_reqs lookup_step_calls_once)

text \<open>C5 at a rate-limited answer (429), followed by a second lookup.\<close>

theorem lookupGeo_failure_not_cached_witness:
  "lookupGeo Map.empty rate_limited (JStr ''81.2.69.142'') =
     (None, Map.empty, [geo_request (JStr ''81.2.69.142'')]) \<and>
   snd (snd (lookupGeo (fst (snd (lookupGeo Map.empty rate_limited (JStr ''81.2.69.142'')))) bad_body
     (JStr ''81.2.69.142''))) = [geo_request (JStr ''81.2.69.142'')]"
proof -
  have nf: "\<not> fresh Map.empty (now_check rate_limited) ''81.2.69.142''"
    and nf2: "\<not> fresh Map.empty (now_check bad_body) ''81.2.69.142''"
    by (simp_all add: fresh_def)
  have f: "failed (outcome rate_limited)"
    by (simp add: failed_def rate_limited_def ok_def)
  from lookupGeo_failure_not_cached [OF ipv4_8 nf f] nf2 show ?thesis by blast
qed

text \<open>
  Claim C10. For an IPv4-shaped string \<open>s\<close> whose entry \<open>e\<close> is seven days old or older,
  a call whose refresh fails returns \<open>null\<close>, not the result held in \<open>e\<close>, and \<open>e\<close>
  stays in the cache as it was.
\<close>

theorem lookupGeo_stale_no_fallback:
  "ipv4_test s \<Longrightarrow> c s = Some e \<Longrightarrow> week_ms \<le> now_check env - ts e \<Longrightarrow>
   failed (outcome env) \<Longrightarrow>
   lookupGeo c env (JStr s) = (None, c, [geo_request (JStr s)]) \<and>
   fst (lookupGeo c env (JStr s)) \<noteq> Some (geo_of e) \<and>
   fst (snd (lookupGeo c env (JStr s))) s = Some e"
proof -
  assume ip: "ipv4_test s" and e: "c s = Some e" and old: "week_ms \<le> now_check env - ts e"
    and f: "failed (outcome env)"
  have "\<not> fresh c (now_check env) s"
    using e old by (simp add: fresh_def)
  from lookupGeo_failed [OF ip this f] e show ?thesis by simp
qed

text \<open>C10 at an entry exactly seven days old and a request that is aborted.\<close>

theorem lookupGeo_stale_no_fallback_witness:
  "lookupGeo [''81.2.69.142'' \<mapsto> entry_of london_geo 1250] timed_out (JStr ''81.2.69.142'') =
     (None, [''81.2.69.142'' \<mapsto> entry_of london_geo 1250], [geo_request (JStr ''81.2.69.142'')])"
proof -
  have e: "[''81.2.69.142'' \<mapsto> entry_of london_geo 1250] ''81.2.69.142'' =
      Some (entry_of london_geo 1250)"
    by simp
  have old: "week_ms \<le> now_check timed_out - ts (entry_of london_geo 1250)"
    by (simp add: week_ms_def timed_out_def entry_of_def)
  have f: "failed (outcome timed_out)"
    by (simp add: failed_def timed_out_def)
  from lookupGeo_stale_no_fallback
    [of "''81.2.69.142''" "[''81.2.69.142'' \<mapsto> entry_of london_geo 1250]"
      "entry_of london_geo 1250" timed_out]
    ipv4_8 e old f
  show ?thesis by blast
qed

subsection \<open>The views and the targets of GET /data\<close>
















































subsection \<open>The device list\<close>

text \<open>
  Claim C7. When \<open>ADMIN_TOKEN\<close> is empty (in particular when the variable is not set),
  \<open>fetchDevices\<close> returns the empty list and sends no request, whatever the upstream
  would answer. When \<open>ADMIN_TOKEN\<close> is set and the upstream answers with a status
  outside 200..299, \<open>fetchDevices\<close> throws \<open>Error("devices <status>")\<close> after its one
  request.
\<close>

theorem fetchDevices_admin:
  "(ADMIN_TOKEN cfg = [] \<longrightarrow> fetchDevices cfg out = (Inr [], [])) \<and>
   (ev ''ADMIN_TOKEN'' = None \<longrightarrow> fetchDevices (load_config ev) out = (Inr [], [])) \<and>
   (ADMIN_TOKEN cfg \<noteq> [] \<and> \<not> ok st \<longrightarrow>
      fetchDevices cfg (Response st b) = (Inl (HttpError ''devices'' st), [devices_request cfg]))"
  by (simp add: fetchDevices_def load_config_def env_or_def trim_def)

text \<open>C7 without an admin token, and with one at an upstream status 503.\<close>

theorem fetchDevices_admin_witness:
  "fetchDevices cfg0 (Response 200 (Parsed fleet_body)) = (Inr [], []) \<and>
   fetchDevices cfg1 (Response 503 (Unparsable ''SyntaxError'')) =
     (Inl (HttpError ''devices'' 503),
      [\<lparr>url = ''https://main.example/api/devices'', headers = [(''x-admin-token'', Some ''adm1n'')]\<rparr>])"
proof -
  have a: "ADMIN_TOKEN cfg0 = []" by (simp add: cfg0_def)
  have b: "ADMIN_TOKEN cfg1 \<noteq> [] \<and> \<not> ok 503" by (simp add: cfg1_def ok_def)
  from fetchDevices_admin [of cfg0 "Response 200 (Parsed fleet_body)"] a
  have "fetchDevices cfg0 (Response 200 (Parsed fleet_body)) = (Inr [], [])" by blast
  moreover from fetchDevices_admin [of cfg1 _ _ 503 "Unparsable ''SyntaxError''"] b
  have "fetchDevices cfg1 (Response 503 (Unparsable ''SyntaxError'')) =
     (Inl (HttpError ''devices'' 503), [devices_request cfg1])" by blast
  ultimately show ?thesis by (simp add: devices_request_def cfg1_def)
qed

subsection \<open>The proxies\<close>




text \<open>
  Claim C2 at part 002 with no variable set. The start prints its warning and serves;
  \<open>GET /stats\<close> then sends the upstream request, with \<open>undefined\<close> as the value of the
  header \<open>x-stats-token\<close>, and passes the upstream's 401 on. No "not configured" error
  is reported.
\<close>

theorem part002_calls_without_token:
  "part002_config Map.empty = (''https://seashell-app-naq42.ondigitalocean.app'', None) \<and>
   part002_warns (part002_config Map.empty) \<and>
   part002_stats (part002_config Map.empty)
       (Response 401 (Parsed (JObj [(''error'', JStr ''unauthorized'')]))) =
     (\<lparr>status = 401, payload = JObj [(''error'', JStr ''unauthorized'')]\<rparr>,
      [\<lparr>url = ''https://seashell-app-naq42.ondigitalocean.app/api/stats-public'',
        headers = [(''x-stats-token'', None)]\<rparr>])"
  by (simp add: part002_config_def part002_warns_def part002_stats_def part002_request_def
      env_or_def)

text \<open>
  The other three variants do stop: part 001 exits at the start, and the \<open>/stats\<close>
  handlers of server-dashboard.js and part 000 answer \<open>dashboard_not_configured\<close> without
  a request.
\<close>

lemma startup_blocks:
  "ev ''API_BASE'' = None \<or> ev ''STATS_TOKEN'' = None \<Longrightarrow> startup ev = None"
  by (auto simp: startup_def load_config_def env_or_def strip_slashes_def trim_def)

lemma proxies_guard:
  "ev ''API_BASE'' = None \<or> ev ''STATS_TOKEN'' = None \<Longrightarrow>
   dashboard_stats (dashboard_config ev) out = (not_configured, []) \<and>
   part000_stats (dashboard_config ev) out = (not_configured, [])"
  by (auto simp: dashboard_stats_def part000_stats_def dashboard_config_def env_or_def)

end
